theory Spec2Isabelle
  imports Main
begin

section \<open>Encrypted upload coordination (libsync/propagateuploadencrypted.cpp)\<close>

text \<open>
  The class \<open>PropagateUploadEncrypted\<close> is a chain of Qt slots. Each slot is embedded as
  a function from the object's members before the call to the members after it, together
  with the list of what the slot asks of its collaborators, in program order: jobs
  started, timers armed, the encryption primitive called, signals emitted. The
  \<open>qCDebug\<close> lines write to the log only and are left out.
\<close>

subsection \<open>Data\<close>

type_synonym qbytearray = string
type_synonym qstring = string

text \<open>
  \<open>EncryptedFile\<close> and \<open>FolderMetadata\<close> are declared in clientsideencryption.h; the
  members below are the ones this file reads and writes. A default-constructed record has
  empty strings; its two integers are written before they are read on every path.
\<close>

record EncryptedFile =
  encryptionKey :: qbytearray
  mimetype :: qbytearray
  initializationVector :: qbytearray
  authenticationTag :: qbytearray
  encryptedFilename :: qstring
  originalFilename :: qstring
  fileVersion :: int
  metadataKey :: int

definition default_EncryptedFile :: EncryptedFile where
  "default_EncryptedFile =
     \<lparr>encryptionKey = [], mimetype = [], initializationVector = [],
      authenticationTag = [], encryptedFilename = [], originalFilename = [],
      fileVersion = 0, metadataKey = 0\<rparr>"

text \<open>
  The JSON document handed to \<open>jsonReceived\<close> is kept as the records that
  \<open>FolderMetadata\<close> decodes from it. The \<open>FolderMetadata\<close> object is what this
  file can see of it: the records \<open>files()\<close> returns after construction and the records
  handed to \<open>addEncryptedFile\<close>, in call order. The update job is given
  \<open>encryptedMetadata()\<close>, the serialisation of the object; the action carries the
  object itself.
\<close>

type_synonym qjsondocument = "EncryptedFile list"

record FolderMetadata =
  md_parsed :: "EncryptedFile list"
  md_added :: "EncryptedFile list"

definition new_FolderMetadata :: "qjsondocument \<Rightarrow> FolderMetadata" where
  "new_FolderMetadata json = \<lparr>md_parsed = json, md_added = []\<rparr>"

definition files :: "FolderMetadata \<Rightarrow> EncryptedFile list" where
  "files md = md_parsed md"

definition addEncryptedFile :: "EncryptedFile \<Rightarrow> FolderMetadata \<Rightarrow> FolderMetadata" where
  "addEncryptedFile f md = md\<lparr>md_added := md_added md @ [f]\<rparr>"

text \<open>
  \<open>LsColJob\<close> (networkjobs.h): the path it lists and its \<open>_folderInfos\<close> hash, whose
  \<open>value(key)\<close> is a default-constructed entry when the key is absent.
\<close>

record ExtraFolderInfo =
  fileId :: qbytearray

record LsColJob =
  lscol_path :: qstring
  folderInfos :: "qstring \<rightharpoonup> ExtraFolderInfo"

definition qhash_value :: "(qstring \<rightharpoonup> ExtraFolderInfo) \<Rightarrow> qstring \<Rightarrow> ExtraFolderInfo" where
  "qhash_value h k = (case h k of None \<Rightarrow> \<lparr>fileId = []\<rparr> | Some v \<Rightarrow> v)"

text \<open>
  The item names its file through two members in this file: \<open>_item->_file\<close> (lines 41,
  119, 183) and \<open>_item->File\<close> (line 125, the name compared with \<open>originalFilename\<close>).
  Its declaration is not part of the sources at hand, so both are kept.
\<close>

record SyncFileItem =
  item_file :: qstring
  item_File :: qstring

text \<open>
  The members of the object. \<open>folderLockFirstTry\<close> is the \<open>QElapsedTimer\<close>: \<open>None\<close>
  until \<open>start()\<close> is called on it, then the clock reading at that call.
\<close>

record PropagateUploadEncrypted =
  localDir :: qstring
  item :: SyncFileItem
  folderToken :: qbytearray
  folderId :: qbytearray
  folderLockFirstTry :: "int option"
  currentLockingInProgress :: bool
  metadata :: "FolderMetadata option"
  encryptedFile :: EncryptedFile
  completeFileName :: qstring

text \<open>
  The constructor (lines 19-24) sets \<open>_propagator\<close>, \<open>_item\<close> and \<open>_metadata\<close>. The
  initial value of \<open>_currentLockingInProgress\<close> is given, if at all, where the member
  is declared, in propagateuploadencrypted.h; it is the first parameter here.
\<close>

definition PropagateUploadEncrypted_ctor ::
  "bool \<Rightarrow> qstring \<Rightarrow> SyncFileItem \<Rightarrow> PropagateUploadEncrypted" where
  "PropagateUploadEncrypted_ctor inProgress0 dir it =
     \<lparr>localDir = dir, item = it, folderToken = [], folderId = [],
      folderLockFirstTry = None, currentLockingInProgress = inProgress0,
      metadata = None, encryptedFile = default_EncryptedFile, completeFileName = []\<rparr>"

text \<open>
  What a slot reads from outside the object while it runs: the monotonic clock in
  milliseconds, the random generators, the MIME database, the outcome of the encryption
  primitive (whether it succeeded and what it left in the tag parameter), and the file
  system.
\<close>

record world =
  now :: int
  generateRandom_key :: qbytearray
  generateRandom_iv :: qbytearray
  generateRandomString :: qstring
  mimeTypeForFile :: "qstring \<Rightarrow> qbytearray"
  encryption_ok :: bool
  encryption_tag :: qbytearray
  tempPath :: qstring
  currentPath :: qstring
  fileSize :: "qstring \<Rightarrow> int"

text \<open>
  What a slot does to the outside. The requests are those of the collaborators' table;
  the unlock request is among them although no line of this file creates one.
\<close>

datatype action =
    StartGetFolderEncryptStatusJob qstring
  | StartLsColJob qstring "string list"
  | StartLockEncryptFolderApiJob qbytearray
  | StartUnlockEncryptFolderApiJob qbytearray qbytearray
  | StartGetMetadataApiJob qbytearray
  | StartUpdateMetadataApiJob qbytearray FolderMetadata qbytearray
  | SingleShot int qbytearray
  | CallFileEncryption qbytearray qbytearray qstring qstring
  | EmitFolerNotEncrypted
  | EmitFinalized qstring qstring int

datatype fault = EmptyListFirst | InvalidTimerElapsed

subsection \<open>Qt path helpers\<close>

text \<open>
  \<open>QDir::separator()\<close> is \<open>/\<close> (the Unix build). \<open>QFileInfo::fileName\<close> is what
  follows the last slash, \<open>QFileInfo::path\<close> what precedes it (\<open>.\<close> without a slash,
  \<open>/\<close> for a file in the root), and \<open>section('/', 0, -2)\<close> keeps all fields but
  the last. \<open>absoluteFilePath\<close> prepends the current directory to a relative path and
  cleans the result as \<open>QDir::cleanPath\<close> does: repeated and trailing slashes and
  \<open>.\<close> segments go, a \<open>..\<close> segment takes the segment before it along (at the root
  it is dropped). A clean absolute path comes back as it is.
\<close>

definition separator :: qstring where
  "separator = ''/''"

definition qfi_fileName :: "qstring \<Rightarrow> qstring" where
  "qfi_fileName p = rev (takeWhile (\<lambda>c. c \<noteq> CHR ''/'') (rev p))"

definition before_last_slash :: "qstring \<Rightarrow> qstring" where
  "before_last_slash p = rev (drop 1 (dropWhile (\<lambda>c. c \<noteq> CHR ''/'') (rev p)))"

definition qfi_path :: "qstring \<Rightarrow> qstring" where
  "qfi_path p =
     (if CHR ''/'' \<notin> set p then ''.''
      else if before_last_slash p = [] then ''/'' else before_last_slash p)"

fun split_slash :: "qstring \<Rightarrow> qstring \<Rightarrow> qstring list" where
  "split_slash cur [] = [cur]"
| "split_slash cur (c # cs) =
     (if c = CHR ''/'' then cur # split_slash [] cs else split_slash (cur @ [c]) cs)"

fun normalize_segments :: "qstring list \<Rightarrow> qstring list \<Rightarrow> qstring list" where
  "normalize_segments kept [] = rev kept"
| "normalize_segments kept (seg # rest) =
     (if seg = [] \<or> seg = ''.'' then normalize_segments kept rest
      else if seg = ''..'' then normalize_segments (drop 1 kept) rest
      else normalize_segments (seg # kept) rest)"

definition cleanPath :: "qstring \<Rightarrow> qstring" where
  "cleanPath p =
     (case normalize_segments [] (split_slash [] p) of
        [] \<Rightarrow> ''/''
      | segs \<Rightarrow> concat (map (\<lambda>seg. ''/'' @ seg) segs))"

definition qfi_absoluteFilePath :: "world \<Rightarrow> qstring \<Rightarrow> qstring" where
  "qfi_absoluteFilePath w p =
     cleanPath (if take 1 p = ''/'' then p else currentPath w @ ''/'' @ p)"

definition section_0_m2 :: "qstring \<Rightarrow> qstring" where
  "section_0_m2 s = before_last_slash s"

subsection \<open>The slots\<close>

definition start :: "PropagateUploadEncrypted \<Rightarrow> PropagateUploadEncrypted \<times> action list" where
  "start s = (s, [StartGetFolderEncryptStatusJob (qfi_path (item_file (item s)))])"

definition slotFolderEncryptedStatusFetched ::
  "qstring \<Rightarrow> bool \<Rightarrow> PropagateUploadEncrypted \<Rightarrow> PropagateUploadEncrypted \<times> action list" where
  "slotFolderEncryptedStatusFetched folder isEncrypted s =
     (if isEncrypted
      then (s, [StartLsColJob folder [''resourcetype'', ''http://owncloud.org/ns:fileid'']])
      else (s, [EmitFolerNotEncrypted]))"

definition slotTryLock ::
  "qbytearray \<Rightarrow> PropagateUploadEncrypted \<Rightarrow> PropagateUploadEncrypted \<times> action list" where
  "slotTryLock fid s = (s, [StartLockEncryptFolderApiJob fid])"

definition slotFolderEncryptedIdReceived ::
  "world \<Rightarrow> LsColJob \<Rightarrow> qstring list \<Rightarrow> PropagateUploadEncrypted
     \<Rightarrow> fault + PropagateUploadEncrypted \<times> action list" where
  "slotFolderEncryptedIdReceived w job list s =
     (case list of
        [] \<Rightarrow> Inl EmptyListFirst
      | first # _ \<Rightarrow>
          (let folderInfo = qhash_value (folderInfos job) first;
               s1 = s\<lparr>folderLockFirstTry := Some (now w)\<rparr>
           in Inr (slotTryLock (fileId folderInfo) s1)))"

definition slotFolderLockedSuccessfully ::
  "qbytearray \<Rightarrow> qbytearray \<Rightarrow> PropagateUploadEncrypted
     \<Rightarrow> PropagateUploadEncrypted \<times> action list" where
  "slotFolderLockedSuccessfully fid token s =
     (let s1 = s\<lparr>currentLockingInProgress := True, folderToken := token, folderId := fid\<rparr>
      in (s1, [StartGetMetadataApiJob (folderId s1)]))"

fun find_existing :: "qstring \<Rightarrow> EncryptedFile list \<Rightarrow> EncryptedFile \<Rightarrow> EncryptedFile" where
  "find_existing name [] encFile = encFile"
| "find_existing name (file # rest) encFile =
     find_existing name rest (if originalFilename file = name then file else encFile)"

definition slotFolderEncriptedMetadataReceived ::
  "world \<Rightarrow> qjsondocument \<Rightarrow> int \<Rightarrow> PropagateUploadEncrypted
     \<Rightarrow> PropagateUploadEncrypted \<times> action list" where
  "slotFolderEncriptedMetadataReceived w json statusCode s =
     (let md = new_FolderMetadata json;
          info = localDir s @ separator @ item_file (item s);
          e0 = find_existing (item_File (item s)) (files md) default_EncryptedFile;
          e1 = e0\<lparr>encryptionKey := generateRandom_key w,
                  initializationVector := generateRandom_iv w\<rparr>;
          e2 = (if encryptedFilename e1 = []
                then e1\<lparr>encryptedFilename := generateRandomString w,
                        fileVersion := 1,
                        metadataKey := 1,
                        originalFilename := qfi_fileName info,
                        mimetype := mimeTypeForFile w info\<rparr>
                else e1);
          input = qfi_absoluteFilePath w info;
          output = tempPath w @ separator @ encryptedFilename e2;
          tag = encryption_tag w;
          e3 = e2\<lparr>authenticationTag := tag\<rparr>;
          md1 = addEncryptedFile e3 md;
          s1 = s\<lparr>metadata := Some md1, encryptedFile := e3, completeFileName := output\<rparr>
      in (s1, [CallFileEncryption (encryptionKey e2) (initializationVector e2) input output,
               StartUpdateMetadataApiJob (folderId s1) md1 (folderToken s1)]))"

definition slotUpdateMetadataSuccess ::
  "world \<Rightarrow> qbytearray \<Rightarrow> PropagateUploadEncrypted \<Rightarrow> PropagateUploadEncrypted \<times> action list" where
  "slotUpdateMetadataSuccess w fid s =
     (let outputInfo = completeFileName s
      in (s, [EmitFinalized
                (qfi_path outputInfo @ ''/'' @ qfi_fileName outputInfo)
                (section_0_m2 (item_file (item s)) @ ''/'' @ qfi_fileName outputInfo)
                (fileSize w outputInfo)]))"

definition slotUpdateMetadataError ::
  "qbytearray \<Rightarrow> int \<Rightarrow> PropagateUploadEncrypted \<Rightarrow> PropagateUploadEncrypted \<times> action list" where
  "slotUpdateMetadataError fid httpErrorResponse s = (s, [])"

definition slotUnlockEncryptedFolderSuccess ::
  "qbytearray \<Rightarrow> PropagateUploadEncrypted \<Rightarrow> PropagateUploadEncrypted \<times> action list" where
  "slotUnlockEncryptedFolderSuccess fid s = (s, [])"

definition slotUnlockEncryptedFolderError ::
  "qbytearray \<Rightarrow> int \<Rightarrow> PropagateUploadEncrypted \<Rightarrow> PropagateUploadEncrypted \<times> action list" where
  "slotUnlockEncryptedFolderError fid httpStatusCode s = (s, [])"

text \<open>
  \<open>slotFolderLockedError\<close> arms one single-shot timer of 5000 ms; \<open>retry_lambda\<close> is the
  closure the timer runs, with the captured \<open>fileId\<close>. Reading \<open>elapsed()\<close> of a timer
  that was never started is a fault.
\<close>

definition slotFolderLockedError ::
  "qbytearray \<Rightarrow> int \<Rightarrow> PropagateUploadEncrypted \<Rightarrow> PropagateUploadEncrypted \<times> action list" where
  "slotFolderLockedError fid httpErrorCode s = (s, [SingleShot 5000 fid])"

definition elapsed :: "world \<Rightarrow> int \<Rightarrow> int" where
  "elapsed w t0 = now w - t0"

definition retry_lambda ::
  "world \<Rightarrow> qbytearray \<Rightarrow> PropagateUploadEncrypted
     \<Rightarrow> fault + PropagateUploadEncrypted \<times> action list" where
  "retry_lambda w fid s =
     (if \<not> currentLockingInProgress s then Inr (s, [])
      else (case folderLockFirstTry s of
              None \<Rightarrow> Inl InvalidTimerElapsed
            | Some t0 \<Rightarrow>
                if elapsed w t0 > 1000 * 60 * 5 then Inr (s, [])
                else Inr (slotTryLock fid s)))"

definition slotFolderEncryptedIdError ::
  "PropagateUploadEncrypted \<Rightarrow> PropagateUploadEncrypted \<times> action list" where
  "slotFolderEncryptedIdError s = (s, [])"

definition slotFolderEncryptedStatusError ::
  "int \<Rightarrow> PropagateUploadEncrypted \<Rightarrow> PropagateUploadEncrypted \<times> action list" where
  "slotFolderEncryptedStatusError err s = (s, [])"

subsection \<open>Dispatch: the \<open>connect\<close> calls\<close>

text \<open>
  An event is a signal of a job (or the timer) that some \<open>connect\<close> call of this file
  routes to a slot, or the caller's \<open>start()\<close>. \<open>GetMetadataApiJob\<close> has only its
  \<open>jsonReceived\<close> signal connected, and the two unlock slots are connected nowhere.
\<close>

datatype event =
    Start
  | EncryptStatusFolderReceived qstring bool
  | EncryptStatusError int
  | DirectoryListingSubfolders LsColJob "qstring list"
  | FinishedWithError
  | LockSuccess qbytearray qbytearray
  | LockError qbytearray int
  | TimerShot qbytearray
  | JsonReceived qjsondocument int
  | UpdateSuccess qbytearray
  | UpdateError qbytearray int

fun deliver ::
  "world \<Rightarrow> event \<Rightarrow> PropagateUploadEncrypted
     \<Rightarrow> fault + PropagateUploadEncrypted \<times> action list" where
  "deliver w Start s = Inr (start s)"
| "deliver w (EncryptStatusFolderReceived folder isEncrypted) s =
     Inr (slotFolderEncryptedStatusFetched folder isEncrypted s)"
| "deliver w (EncryptStatusError err) s = Inr (slotFolderEncryptedStatusError err s)"
| "deliver w (DirectoryListingSubfolders job list) s =
     slotFolderEncryptedIdReceived w job list s"
| "deliver w FinishedWithError s = Inr (slotFolderEncryptedIdError s)"
| "deliver w (LockSuccess fid token) s = Inr (slotFolderLockedSuccessfully fid token s)"
| "deliver w (LockError fid code) s = Inr (slotFolderLockedError fid code s)"
| "deliver w (TimerShot fid) s = retry_lambda w fid s"
| "deliver w (JsonReceived json statusCode) s =
     Inr (slotFolderEncriptedMetadataReceived w json statusCode s)"
| "deliver w (UpdateSuccess fid) s = Inr (slotUpdateMetadataSuccess w fid s)"
| "deliver w (UpdateError fid code) s = Inr (slotUpdateMetadataError fid code s)"

text \<open>
  A run delivers events one after the other, each with the world it sees, and collects
  the actions; it stops at the first fault.
\<close>

fun run ::
  "PropagateUploadEncrypted \<Rightarrow> (world \<times> event) list
     \<Rightarrow> fault + PropagateUploadEncrypted \<times> action list" where
  "run s [] = Inr (s, [])"
| "run s ((w, e) # rest) =
     (case deliver w e s of
        Inl f \<Rightarrow> Inl f
      | Inr (s1, acts) \<Rightarrow>
          (case run s1 rest of
             Inl f \<Rightarrow> Inl f
           | Inr (s2, acts2) \<Rightarrow> Inr (s2, acts @ acts2)))"

text \<open>
  Which signal can come back from which action: the job's connected signals, and the
  timer's shot with the captured file id. Nothing comes back from a call of the
  encryption primitive or from an emitted signal.
\<close>

definition answers :: "action \<Rightarrow> event \<Rightarrow> bool" where
  "answers a e =
     (case a of
        StartGetFolderEncryptStatusJob p \<Rightarrow>
          (case e of EncryptStatusFolderReceived folder b \<Rightarrow> True
                   | EncryptStatusError err \<Rightarrow> True
                   | _ \<Rightarrow> False)
      | StartLsColJob folder props \<Rightarrow>
          (case e of DirectoryListingSubfolders job list \<Rightarrow> lscol_path job = folder
                   | FinishedWithError \<Rightarrow> True
                   | _ \<Rightarrow> False)
      | StartLockEncryptFolderApiJob fid \<Rightarrow>
          (case e of LockSuccess fid' token \<Rightarrow> fid' = fid
                   | LockError fid' code \<Rightarrow> fid' = fid
                   | _ \<Rightarrow> False)
      | StartGetMetadataApiJob fid \<Rightarrow>
          (case e of JsonReceived json statusCode \<Rightarrow> True | _ \<Rightarrow> False)
      | StartUpdateMetadataApiJob fid md token \<Rightarrow>
          (case e of UpdateSuccess fid' \<Rightarrow> True
                   | UpdateError fid' code \<Rightarrow> True
                   | _ \<Rightarrow> False)
      | SingleShot ms fid \<Rightarrow>
          (case e of TimerShot fid' \<Rightarrow> fid' = fid | _ \<Rightarrow> False)
      | _ \<Rightarrow> False)"

definition awaits_answer :: "action \<Rightarrow> bool" where
  "awaits_answer a =
     (case a of
        StartGetFolderEncryptStatusJob p \<Rightarrow> True
      | StartLsColJob folder props \<Rightarrow> True
      | StartLockEncryptFolderApiJob fid \<Rightarrow> True
      | StartUnlockEncryptFolderApiJob fid token \<Rightarrow> False
      | StartGetMetadataApiJob fid \<Rightarrow> True
      | StartUpdateMetadataApiJob fid md token \<Rightarrow> True
      | SingleShot ms fid \<Rightarrow> True
      | CallFileEncryption k iv inp outp \<Rightarrow> False
      | EmitFolerNotEncrypted \<Rightarrow> False
      | EmitFinalized p r n \<Rightarrow> False)"

text \<open>
  What is still outstanding after a trace: the jobs and timers that were started and have
  not yet reported back. A trace begins with the caller's \<open>start()\<close>; every later event
  must answer something outstanding, which it uses up. \<open>None\<close> marks a trace that the
  jobs of this file cannot produce.
\<close>

fun outstanding_after ::
  "action list \<Rightarrow> PropagateUploadEncrypted \<Rightarrow> (world \<times> event) list
     \<Rightarrow> action list option" where
  "outstanding_after pending s [] = Some pending"
| "outstanding_after pending s ((w, e) # rest) =
     (case find (\<lambda>a. answers a e) pending of
        None \<Rightarrow> None
      | Some a \<Rightarrow>
          (case deliver w e s of
             Inl f \<Rightarrow> None
           | Inr (s1, acts) \<Rightarrow>
               outstanding_after (remove1 a pending @ filter awaits_answer acts) s1 rest))"

definition outstanding ::
  "PropagateUploadEncrypted \<Rightarrow> (world \<times> event) list \<Rightarrow> action list option" where
  "outstanding s es =
     (case es of
        (w, Start) # rest \<Rightarrow>
          (case deliver w Start s of
             Inl f \<Rightarrow> None
           | Inr (s1, acts) \<Rightarrow> outstanding_after (filter awaits_answer acts) s1 rest)
      | _ \<Rightarrow> None)"

subsection \<open>A concrete upload\<close>

text \<open>
  The file docs/report.pdf below the sync root /home/u/sync, in the encrypted folder docs
  with file id 17; the in-flight marker starts false.
\<close>

definition ex_item :: SyncFileItem where
  "ex_item = \<lparr>item_file = ''docs/report.pdf'', item_File = ''docs/report.pdf''\<rparr>"

definition ex_task :: PropagateUploadEncrypted where
  "ex_task = PropagateUploadEncrypted_ctor False ''/home/u/sync'' ex_item"

definition ex_world :: "int \<Rightarrow> world" where
  "ex_world t =
     \<lparr>now = t,
      generateRandom_key = ''0123456789abcdef'',
      generateRandom_iv = ''fedcba9876543210'',
      generateRandomString = ''qwertyuiopasdfghjklz'',
      mimeTypeForFile = (\<lambda>p. ''application/pdf''),
      encryption_ok = True,
      encryption_tag = ''TAG0TAG1TAG2TAG3'',
      tempPath = ''/tmp'',
      currentPath = ''/home/u'',
      fileSize = (\<lambda>p. 1024)\<rparr>"

definition ex_job :: LsColJob where
  "ex_job = \<lparr>lscol_path = ''docs'', folderInfos = [''docs'' \<mapsto> \<lparr>fileId = ''17''\<rparr>]\<rparr>"

definition ex_until_lock :: "(world \<times> event) list" where
  "ex_until_lock =
     [(ex_world 0, Start),
      (ex_world 10, EncryptStatusFolderReceived ''docs'' True),
      (ex_world 20, DirectoryListingSubfolders ex_job [''docs''])]"

definition ex_upload_ok :: "(world \<times> event) list" where
  "ex_upload_ok = ex_until_lock @
     [(ex_world 30, LockSuccess ''17'' ''tok''),
      (ex_world 40, JsonReceived [] 200),
      (ex_world 50, UpdateSuccess ''17'')]"

definition ex_upload_write_fails :: "(world \<times> event) list" where
  "ex_upload_write_fails = ex_until_lock @
     [(ex_world 30, LockSuccess ''17'' ''tok''),
      (ex_world 40, JsonReceived [] 200),
      (ex_world 50, UpdateError ''17'' 409)]"

definition ex_lock_contended :: "(world \<times> event) list" where
  "ex_lock_contended = ex_until_lock @
     [(ex_world 30, LockError ''17'' 423),
      (ex_world 5030, TimerShot ''17'')]"

definition ex_waiting :: PropagateUploadEncrypted where
  "ex_waiting = ex_task\<lparr>folderLockFirstTry := Some 20\<rparr>"

definition ex_held :: PropagateUploadEncrypted where
  "ex_held = ex_task\<lparr>folderToken := ''tok'', folderId := ''17'',
                     folderLockFirstTry := Some 0, currentLockingInProgress := True\<rparr>"

definition ex_old_record :: EncryptedFile where
  "ex_old_record =
     \<lparr>encryptionKey = ''oldkeyoldkeyoldk'', mimetype = ''text/plain'',
      initializationVector = ''oldivoldivoldivo'', authenticationTag = ''oldtag'',
      encryptedFilename = ''xyz123'', originalFilename = ''docs/report.pdf'',
      fileVersion = 7, metadataKey = 3\<rparr>"

definition ex_failed_encryption :: world where
  "ex_failed_encryption = (ex_world 40)\<lparr>encryption_ok := False, encryption_tag := []\<rparr>"

section \<open>Properties\<close>

subsection \<open>Auxiliary facts\<close>

lemmas slot_defs =
  start_def slotFolderEncryptedStatusFetched_def slotTryLock_def
  slotFolderEncryptedIdReceived_def slotFolderLockedSuccessfully_def
  slotFolderEncriptedMetadataReceived_def slotUpdateMetadataSuccess_def
  slotUpdateMetadataError_def slotFolderLockedError_def retry_lambda_def
  slotFolderEncryptedIdError_def slotFolderEncryptedStatusError_def

lemmas path_defs = qfi_path_def qfi_fileName_def before_last_slash_def
  qfi_absoluteFilePath_def cleanPath_def section_0_m2_def separator_def

lemmas ex_defs = ex_item_def ex_task_def ex_world_def ex_job_def ex_until_lock_def
  ex_held_def PropagateUploadEncrypted_ctor_def default_EncryptedFile_def

lemmas eval_defs = ex_defs slot_defs path_defs Let_def new_FolderMetadata_def files_def
  addEncryptedFile_def qhash_value_def answers_def awaits_answer_def outstanding_def
  elapsed_def

text \<open>The marker changes in one slot only, and only to true.\<close>

lemma deliver_marker:
  "deliver w e s = Inr (s1, acts) \<Longrightarrow>
   currentLockingInProgress s1 = (currentLockingInProgress s \<or> (\<exists>f t. e = LockSuccess f t))"
  by (cases e) (auto simp: slot_defs Let_def split: if_splits list.splits option.splits)

lemma run_marker:
  "run s es = Inr (s1, acts) \<Longrightarrow>
   currentLockingInProgress s1 =
     (currentLockingInProgress s \<or> (\<exists>w f t. (w, LockSuccess f t) \<in> set es))"
proof (induction es arbitrary: s acts)
  case Nil
  then show ?case by simp
next
  case (Cons we es)
  obtain w e where we: "we = (w, e)" by (cases we)
  from Cons.prems we obtain sa a1 a2 where
    d: "deliver w e s = Inr (sa, a1)" and r: "run sa es = Inr (s1, a2)"
    by (auto split: sum.splits prod.splits)
  from deliver_marker[OF d] Cons.IH[OF r] we show ?case by auto
qed

text \<open>No slot starts an unlock job, so no run does.\<close>

lemma deliver_never_unlocks:
  "deliver w e s = Inr (s1, acts) \<Longrightarrow> StartUnlockEncryptFolderApiJob f t \<notin> set acts"
  by (cases e) (auto simp: slot_defs Let_def split: if_splits list.splits option.splits)

lemma run_never_unlocks:
  "run s es = Inr (s1, acts) \<Longrightarrow> StartUnlockEncryptFolderApiJob f t \<notin> set acts"
proof (induction es arbitrary: s acts)
  case Nil
  then show ?case by simp
next
  case (Cons we es)
  obtain w e where we: "we = (w, e)" by (cases we)
  from Cons.prems we obtain sa a1 a2 where
    d: "deliver w e s = Inr (sa, a1)" and r: "run sa es = Inr (s1, a2)" and a: "acts = a1 @ a2"
    by (auto split: sum.splits prod.splits)
  from deliver_never_unlocks[OF d] Cons.IH[OF r] a show ?case by simp
qed

text \<open>The scan of lines 124-128 keeps the last record with the given name.\<close>

lemma find_existing_last:
  "find_existing name fs acc =
     (if filter (\<lambda>f. originalFilename f = name) fs = [] then acc
      else last (filter (\<lambda>f. originalFilename f = name) fs))"
  by (induction fs arbitrary: acc) auto

subsection \<open>Lock release\<close>

text \<open>
  C1. A task that held the lock is to send an unlock request with its token on every
  terminal path, after a successful write-back (before \<open>finalized\<close>) and after a failed
  one. The comment in \<open>start()\<close> lists "unlock the folder" as the last step and the class
  has the two slots for the unlock job's answers, but no slot creates the job. In the
  upload below the lock is taken with token tok; the run ends with \<open>finalized\<close>, or
  silently when the write-back fails with 409, nothing is outstanding afterwards, and
  the requests made are exactly the ones listed: no unlock is among them.
\<close>

theorem C1_held_lock_is_not_released:
  "outstanding ex_task ex_upload_ok = Some []
   \<and> (\<exists>s md. run ex_task ex_upload_ok =
         Inr (s, [StartGetFolderEncryptStatusJob ''docs'',
                  StartLsColJob ''docs'' [''resourcetype'', ''http://owncloud.org/ns:fileid''],
                  StartLockEncryptFolderApiJob ''17'',
                  StartGetMetadataApiJob ''17'',
                  CallFileEncryption ''0123456789abcdef'' ''fedcba9876543210''
                    ''/home/u/sync/docs/report.pdf'' ''/tmp/qwertyuiopasdfghjklz'',
                  StartUpdateMetadataApiJob ''17'' md ''tok'',
                  EmitFinalized ''/tmp/qwertyuiopasdfghjklz'' ''docs/qwertyuiopasdfghjklz'' 1024])
         \<and> folderToken s = ''tok'' \<and> currentLockingInProgress s)
   \<and> outstanding ex_task ex_upload_write_fails = Some []
   \<and> (\<exists>s md. run ex_task ex_upload_write_fails =
         Inr (s, [StartGetFolderEncryptStatusJob ''docs'',
                  StartLsColJob ''docs'' [''resourcetype'', ''http://owncloud.org/ns:fileid''],
                  StartLockEncryptFolderApiJob ''17'',
                  StartGetMetadataApiJob ''17'',
                  CallFileEncryption ''0123456789abcdef'' ''fedcba9876543210''
                    ''/home/u/sync/docs/report.pdf'' ''/tmp/qwertyuiopasdfghjklz'',
                  StartUpdateMetadataApiJob ''17'' md ''tok''])
         \<and> folderToken s = ''tok'' \<and> currentLockingInProgress s)"
  by (simp add: eval_defs ex_upload_ok_def ex_upload_write_fails_def)

subsection \<open>Retry of the lock request\<close>

text \<open>
  C2, with the ceiling as the code has it. Every failed lock request arms exactly one
  single-shot timer of 5000 ms. When it fires, a new lock request is made exactly when
  the in-flight marker is set and the time since the first attempt is at most five
  minutes (300000 ms, the bound included); when the marker is not set or more than five
  minutes have passed, the closure returns without a request and without a new timer.
  (The third outcome, a marker set on a clock that was never started, is a fault.)
\<close>

theorem C2_retry_policy:
  "slotFolderLockedError fid code s = (s, [SingleShot 5000 fid])
   \<and> (retry_lambda w fid s = Inr (s, [StartLockEncryptFolderApiJob fid]) \<longleftrightarrow>
        currentLockingInProgress s
        \<and> (\<exists>t0. folderLockFirstTry s = Some t0 \<and> elapsed w t0 \<le> 1000 * 60 * 5))
   \<and> (retry_lambda w fid s = Inr (s, []) \<longleftrightarrow>
        \<not> currentLockingInProgress s
        \<or> (\<exists>t0. folderLockFirstTry s = Some t0 \<and> elapsed w t0 > 1000 * 60 * 5))
   \<and> (retry_lambda w fid s = Inl InvalidTimerElapsed \<longleftrightarrow>
        currentLockingInProgress s \<and> folderLockFirstTry s = None)"
  by (auto simp: slotFolderLockedError_def retry_lambda_def slotTryLock_def
           split: option.splits)

theorem C2_retry_policy_witness:
  "currentLockingInProgress ex_held
   \<and> (\<exists>t0. folderLockFirstTry ex_held = Some t0 \<and> elapsed (ex_world 5000) t0 \<le> 1000 * 60 * 5)
   \<and> retry_lambda (ex_world 5000) ''17'' ex_held =
       Inr (ex_held, [StartLockEncryptFolderApiJob ''17''])
   \<and> \<not> currentLockingInProgress ex_task
   \<and> retry_lambda (ex_world 5000) ''17'' ex_task = Inr (ex_task, [])
   \<and> slotFolderLockedError ''17'' 423 ex_task = (ex_task, [SingleShot 5000 ''17''])"
  using C2_retry_policy [of "''17''" 423 ex_task "ex_world 5000"]
        C2_retry_policy [of "''17''" 423 ex_held "ex_world 5000"]
  by (simp add: ex_held_def ex_task_def ex_world_def PropagateUploadEncrypted_ctor_def elapsed_def)

text \<open>
  The bound itself: with the marker set and exactly 300000 ms on the clock, which is not
  below five minutes, the closure still makes the lock request (line 215 tests \<open>>\<close>).
\<close>

theorem C2_counterexample:
  "currentLockingInProgress ex_held
   \<and> folderLockFirstTry ex_held = Some 0
   \<and> \<not> elapsed (ex_world 300000) 0 < 1000 * 60 * 5
   \<and> retry_lambda (ex_world 300000) ''17'' ex_held =
       Inr (ex_held, [StartLockEncryptFolderApiJob ''17''])"
  by (simp add: eval_defs)

text \<open>
  C3. A lock that fails at first is to be requested again by the timer while the five
  minutes last, as the comments at lines 72-79 and 204-205 describe the loop. The
  closure first tests the in-flight marker, which only a successful lock sets. In the
  run below the first request fails with 423 at 30 ms and the timer fires at 5030 ms,
  5010 ms after the first attempt: the closure returns without a request, one lock
  request was made in all, and nothing is outstanding, so the upload never proceeds.
\<close>

theorem C3_retry_aborts_before_first_success:
  "outstanding ex_task ex_lock_contended = Some []
   \<and> run ex_task ex_lock_contended =
       Inr (ex_waiting,
            [StartGetFolderEncryptStatusJob ''docs'',
             StartLsColJob ''docs'' [''resourcetype'', ''http://owncloud.org/ns:fileid''],
             StartLockEncryptFolderApiJob ''17'',
             SingleShot 5000 ''17''])
   \<and> folderLockFirstTry ex_waiting = Some 20
   \<and> elapsed (ex_world 5030) 20 < 1000 * 60 * 5"
  by (simp add: eval_defs ex_lock_contended_def ex_waiting_def)

subsection \<open>Failures of the status check, the listing and the write-back\<close>

text \<open>
  C4, as the code has it. The slots for a failed status check, a failed folder listing
  and a failed metadata update only write to the log: they emit no signal, start no job
  and leave the object as it was, so the caller is not told.
\<close>

theorem C4_failures_are_only_logged:
  "deliver w (EncryptStatusError err) s = Inr (s, [])
   \<and> deliver w FinishedWithError s = Inr (s, [])
   \<and> deliver w (UpdateError fid code) s = Inr (s, [])"
  by (simp add: slotFolderEncryptedStatusError_def slotFolderEncryptedIdError_def
        slotUpdateMetadataError_def)

text \<open>
  At the upload above: status error 500, a failed listing, and update error 409 while the
  lock is held each produce nothing at all.
\<close>

theorem C4_counterexample:
  "slotFolderEncryptedStatusError 500 ex_task = (ex_task, [])
   \<and> slotFolderEncryptedIdError ex_task = (ex_task, [])
   \<and> slotUpdateMetadataError ''17'' 409 ex_held = (ex_held, [])"
  by (simp add: slotFolderEncryptedStatusError_def slotFolderEncryptedIdError_def
        slotUpdateMetadataError_def)

subsection \<open>The metadata record\<close>

text \<open>
  C5, with the tag as the primitive leaves it. Whenever a slot submits the metadata
  update, it is the slot that received the metadata, the call of the encryption
  primitive comes first, and the document sent holds exactly one added record: the
  record of the current file, whose authentication tag is what the primitive left in
  its tag parameter. The tag is stored before the record is added to the document and
  before the update job is started. The record sent lacks a tag exactly when the
  primitive left none; the update is submitted in that case too.
\<close>

theorem C5_update_carries_primitive_tag:
  assumes "deliver w e s = Inr (s1, acts)"
      and "StartUpdateMetadataApiJob fid md token \<in> set acts"
  shows "\<exists>json statusCode key iv inp outp r.
           e = JsonReceived json statusCode
           \<and> acts = [CallFileEncryption key iv inp outp,
                     StartUpdateMetadataApiJob fid md token]
           \<and> md_added md = [r]
           \<and> authenticationTag r = encryption_tag w
           \<and> (authenticationTag r = [] \<longleftrightarrow> encryption_tag w = [])
           \<and> encryptedFile s1 = r
           \<and> metadata s1 = Some md"
  using assms
  by (cases e)
     (auto simp: slot_defs Let_def new_FolderMetadata_def addEncryptedFile_def
           split: if_splits list.splits option.splits)

theorem C5_update_carries_primitive_tag_witness:
  "\<exists>s1 acts md.
     deliver (ex_world 40) (JsonReceived [] 200) ex_held = Inr (s1, acts)
     \<and> StartUpdateMetadataApiJob ''17'' md ''tok'' \<in> set acts
     \<and> (\<exists>r. md_added md = [r] \<and> authenticationTag r = ''TAG0TAG1TAG2TAG3''
            \<and> encryptedFile s1 = r)"
proof -
  define res where
    "res = slotFolderEncriptedMetadataReceived (ex_world 40) [] 200 ex_held"
  define md where "md = the (metadata (fst res))"
  have d: "deliver (ex_world 40) (JsonReceived [] 200) ex_held = Inr (fst res, snd res)"
    by (simp add: res_def)
  have m: "StartUpdateMetadataApiJob ''17'' md ''tok'' \<in> set (snd res)"
    by (simp add: md_def res_def eval_defs)
  from C5_update_carries_primitive_tag [OF d m]
  have "\<exists>r. md_added md = [r] \<and> authenticationTag r = ''TAG0TAG1TAG2TAG3''
          \<and> encryptedFile (fst res) = r"
    by (auto simp: ex_world_def)
  with d m show ?thesis by blast
qed

text \<open>
  A primitive that fails and leaves the tag parameter empty: the update job is started
  with a document whose one added record has no authentication tag.
\<close>

theorem C5_counterexample:
  "encryption_tag ex_failed_encryption = []
   \<and> snd (slotFolderEncriptedMetadataReceived ex_failed_encryption [] 200 ex_held) =
       [CallFileEncryption ''0123456789abcdef'' ''fedcba9876543210''
          ''/home/u/sync/docs/report.pdf'' ''/tmp/qwertyuiopasdfghjklz'',
        StartUpdateMetadataApiJob ''17''
          \<lparr>md_parsed = [],
           md_added =
             [\<lparr>encryptionKey = ''0123456789abcdef'', mimetype = ''application/pdf'',
               initializationVector = ''fedcba9876543210'', authenticationTag = [],
               encryptedFilename = ''qwertyuiopasdfghjklz'',
               originalFilename = ''report.pdf'', fileVersion = 1, metadataKey = 1\<rparr>]\<rparr>
          ''tok'']"
  by (simp add: eval_defs ex_failed_encryption_def)

text \<open>
  C6, with the guard of line 134. The merge takes the last record of the document whose
  \<open>originalFilename\<close> equals the item's file name. If there is one and its
  \<open>encryptedFilename\<close> is not empty, the record is reused as it is, with a new key, a
  new initialization vector and the new tag. If there is none, a new record is made: the
  random file name, the MIME type of the source file, version 1 (and metadata key 1, the
  original name being the file name of the source path).
\<close>

theorem C6_merge_reuses_or_creates:
  "(let name = item_File (item s);
        matches = filter (\<lambda>f. originalFilename f = name) json;
        info = localDir s @ separator @ item_file (item s);
        r = encryptedFile (fst (slotFolderEncriptedMetadataReceived w json statusCode s))
    in (matches \<noteq> [] \<and> encryptedFilename (last matches) \<noteq> [] \<longrightarrow>
          r = (last matches)\<lparr>encryptionKey := generateRandom_key w,
                               initializationVector := generateRandom_iv w,
                               authenticationTag := encryption_tag w\<rparr>)
       \<and> (matches = [] \<longrightarrow>
          r = \<lparr>encryptionKey = generateRandom_key w,
               mimetype = mimeTypeForFile w info,
               initializationVector = generateRandom_iv w,
               authenticationTag = encryption_tag w,
               encryptedFilename = generateRandomString w,
               originalFilename = qfi_fileName info,
               fileVersion = 1, metadataKey = 1\<rparr>))"
  by (simp add: slotFolderEncriptedMetadataReceived_def Let_def find_existing_last
        new_FolderMetadata_def files_def default_EncryptedFile_def)

theorem C6_merge_reuses_or_creates_witness:
  "filter (\<lambda>f. originalFilename f = item_File (item ex_held)) [ex_old_record] = [ex_old_record]
   \<and> encryptedFilename ex_old_record \<noteq> []
   \<and> encryptedFile (fst (slotFolderEncriptedMetadataReceived (ex_world 40)
        [ex_old_record] 200 ex_held)) =
      \<lparr>encryptionKey = ''0123456789abcdef'', mimetype = ''text/plain'',
       initializationVector = ''fedcba9876543210'', authenticationTag = ''TAG0TAG1TAG2TAG3'',
       encryptedFilename = ''xyz123'', originalFilename = ''docs/report.pdf'',
       fileVersion = 7, metadataKey = 3\<rparr>
   \<and> filter (\<lambda>f. originalFilename f = item_File (item ex_held)) [] = []
   \<and> encryptedFile (fst (slotFolderEncriptedMetadataReceived (ex_world 40) [] 200 ex_held)) =
      \<lparr>encryptionKey = ''0123456789abcdef'', mimetype = ''application/pdf'',
       initializationVector = ''fedcba9876543210'', authenticationTag = ''TAG0TAG1TAG2TAG3'',
       encryptedFilename = ''qwertyuiopasdfghjklz'', originalFilename = ''report.pdf'',
       fileVersion = 1, metadataKey = 1\<rparr>"
  using C6_merge_reuses_or_creates [of ex_held "[ex_old_record]" "ex_world 40" 200]
        C6_merge_reuses_or_creates [of ex_held "[]" "ex_world 40" 200]
  by (simp add: Let_def ex_old_record_def ex_held_def ex_task_def ex_item_def ex_world_def
        PropagateUploadEncrypted_ctor_def path_defs)

text \<open>
  A record with the item's file name and an empty \<open>encryptedFilename\<close> is found and yet
  not reused: the name is drawn anew, the version is set to 1 instead of 7 and the MIME
  type is inferred again.
\<close>

theorem C6_counterexample:
  "originalFilename (ex_old_record\<lparr>encryptedFilename := []\<rparr>) = item_File (item ex_held)
   \<and> encryptedFile (fst (slotFolderEncriptedMetadataReceived (ex_world 40)
        [ex_old_record\<lparr>encryptedFilename := []\<rparr>] 200 ex_held)) =
      \<lparr>encryptionKey = ''0123456789abcdef'', mimetype = ''application/pdf'',
       initializationVector = ''fedcba9876543210'', authenticationTag = ''TAG0TAG1TAG2TAG3'',
       encryptedFilename = ''qwertyuiopasdfghjklz'', originalFilename = ''report.pdf'',
       fileVersion = 1, metadataKey = 1\<rparr>
   \<and> mimetype ex_old_record = ''text/plain''
   \<and> fileVersion ex_old_record = 7"
  by (simp add: eval_defs ex_old_record_def)

subsection \<open>The status gate\<close>

text \<open>
  C7. When the encryption-status check reports the folder as not encrypted, the slot
  emits the "folder not encrypted" signal and nothing else: the object is unchanged and
  no listing, lock, metadata or update job, no timer and no encryption call is made, so
  nothing is left that could call the object again.
\<close>

theorem C7_not_encrypted_only_signals:
  "slotFolderEncryptedStatusFetched folder False s = (s, [EmitFolerNotEncrypted])
   \<and> deliver w (EncryptStatusFolderReceived folder False) s = Inr (s, [EmitFolerNotEncrypted])
   \<and> filter awaits_answer [EmitFolerNotEncrypted] = []
   \<and> \<not> answers EmitFolerNotEncrypted e"
  by (simp add: slotFolderEncryptedStatusFetched_def awaits_answer_def answers_def)

subsection \<open>The encryption step\<close>

text \<open>
  C8, as the code has it. The slot does not look at the outcome of the encryption
  primitive: whether it succeeded or not, the slot does the same. After the call it
  stores the tag the primitive left, empty or not, in the record of the current file,
  adds that record to the document, and submits the metadata update with that document
  under the stored folder id and token.
\<close>

theorem C8_encryption_outcome_not_inspected:
  "slotFolderEncriptedMetadataReceived (w\<lparr>encryption_ok := b\<rparr>) json statusCode s =
     slotFolderEncriptedMetadataReceived w json statusCode s
   \<and> (let s1 = fst (slotFolderEncriptedMetadataReceived w json statusCode s);
           r = encryptedFile s1
       in authenticationTag r = encryption_tag w
          \<and> metadata s1 = Some \<lparr>md_parsed = json, md_added = [r]\<rparr>
          \<and> snd (slotFolderEncriptedMetadataReceived w json statusCode s) =
              [CallFileEncryption (generateRandom_key w) (generateRandom_iv w)
                 (qfi_absoluteFilePath w (localDir s @ separator @ item_file (item s)))
                 (tempPath w @ separator @ encryptedFilename r),
               StartUpdateMetadataApiJob (folderId s)
                 \<lparr>md_parsed = json, md_added = [r]\<rparr> (folderToken s)])"
  by (simp add: slotFolderEncriptedMetadataReceived_def Let_def qfi_absoluteFilePath_def
        new_FolderMetadata_def addEncryptedFile_def)

text \<open>
  A primitive that fails and leaves the tag empty: the update is submitted all the same.
\<close>

theorem C8_counterexample:
  "\<not> encryption_ok ex_failed_encryption
   \<and> encryption_tag ex_failed_encryption = []
   \<and> (\<exists>s1 md. deliver ex_failed_encryption (JsonReceived [] 200) ex_held =
        Inr (s1, [CallFileEncryption ''0123456789abcdef'' ''fedcba9876543210''
                    ''/home/u/sync/docs/report.pdf'' ''/tmp/qwertyuiopasdfghjklz'',
                  StartUpdateMetadataApiJob ''17'' md ''tok'']))"
  by (simp add: eval_defs ex_failed_encryption_def)

subsection \<open>Folder id\<close>

text \<open>
  C9, as the code has it. On a listing that is not empty the slot looks up the first
  path of the listing in the job's folder infos and takes its file id, the empty id when
  there is no such entry, which is not an error; it starts the clock at the current
  time and then makes the first lock request with that id.
\<close>

theorem C9_first_entry_id_then_clock_then_lock:
  assumes "list = first # others"
  shows "slotFolderEncryptedIdReceived w job list s =
           Inr (s\<lparr>folderLockFirstTry := Some (now w)\<rparr>,
                [StartLockEncryptFolderApiJob
                   (case folderInfos job first of None \<Rightarrow> [] | Some info \<Rightarrow> fileId info)])
         \<and> slotFolderEncryptedIdReceived w job list s =
           Inr (slotTryLock (fileId (qhash_value (folderInfos job) first))
                  (s\<lparr>folderLockFirstTry := Some (now w)\<rparr>))"
  using assms
  by (simp add: slotFolderEncryptedIdReceived_def slotTryLock_def qhash_value_def Let_def
           split: option.splits)

theorem C9_first_entry_id_then_clock_then_lock_witness:
  "slotFolderEncryptedIdReceived (ex_world 20) ex_job [''docs''] ex_task =
     Inr (ex_task\<lparr>folderLockFirstTry := Some 20\<rparr>, [StartLockEncryptFolderApiJob ''17''])"
  using C9_first_entry_id_then_clock_then_lock
          [of "[''docs'']" "''docs''" "[]" "ex_world 20" ex_job ex_task]
  by (simp add: ex_job_def ex_world_def)

text \<open>
  A listing whose job has no entry for the path: no fault, a lock request for the empty id.
\<close>

theorem C9_counterexample:
  "folderInfos (ex_job\<lparr>folderInfos := Map.empty\<rparr>) ''docs'' = None
   \<and> lscol_path (ex_job\<lparr>folderInfos := Map.empty\<rparr>) = ''docs''
   \<and> slotFolderEncryptedIdReceived (ex_world 20) (ex_job\<lparr>folderInfos := Map.empty\<rparr>)
        [''docs''] ex_task =
      Inr (ex_task\<lparr>folderLockFirstTry := Some 20\<rparr>, [StartLockEncryptFolderApiJob []])"
  by (simp add: eval_defs)

subsection \<open>The in-flight marker\<close>

text \<open>
  C10, for a marker that starts false. The constructor does not set the marker; let its
  first value be \<open>b0\<close>. The marker is written in one slot only, the one of the
  successful lock, which sets it; nothing clears it. So after any run it is set exactly
  if it started set or the run contained a successful lock. Hence, when it starts
  false, a timer that fires before the first successful lock returns without a
  request, whatever the clock says; and a timer that fires after a successful lock and
  returns without a request does so because more than five minutes have passed, not
  because of the marker.
\<close>

theorem C10_marker_written_only_by_lock_success:
  assumes "run (PropagateUploadEncrypted_ctor b0 dir it) es = Inr (s, acts)"
      and "deliver w e s = Inr (s1, acts1)"
  shows "currentLockingInProgress s = (b0 \<or> (\<exists>w0 f t. (w0, LockSuccess f t) \<in> set es))
       \<and> currentLockingInProgress s1 = (currentLockingInProgress s \<or> (\<exists>f t. e = LockSuccess f t))
       \<and> (\<not> b0 \<and> (\<nexists>w0 f t. (w0, LockSuccess f t) \<in> set es) \<longrightarrow>
            retry_lambda w1 fid s = Inr (s, []))
       \<and> ((\<exists>w0 f t. (w0, LockSuccess f t) \<in> set es) \<and> retry_lambda w1 fid s = Inr (s, []) \<longrightarrow>
            (\<exists>t0. folderLockFirstTry s = Some t0 \<and> elapsed w1 t0 > 1000 * 60 * 5))"
proof -
  have init: "currentLockingInProgress (PropagateUploadEncrypted_ctor b0 dir it) = b0"
    by (simp add: PropagateUploadEncrypted_ctor_def)
  have m: "currentLockingInProgress s = (b0 \<or> (\<exists>w0 f t. (w0, LockSuccess f t) \<in> set es))"
    using run_marker [OF assms(1)] init by simp
  have m1: "currentLockingInProgress s1 =
              (currentLockingInProgress s \<or> (\<exists>f t. e = LockSuccess f t))"
    by (rule deliver_marker [OF assms(2)])
  have a: "\<not> b0 \<and> (\<nexists>w0 f t. (w0, LockSuccess f t) \<in> set es) \<longrightarrow>
             retry_lambda w1 fid s = Inr (s, [])"
    using m by (simp add: retry_lambda_def)
  have b: "(\<exists>w0 f t. (w0, LockSuccess f t) \<in> set es) \<and> retry_lambda w1 fid s = Inr (s, []) \<longrightarrow>
            (\<exists>t0. folderLockFirstTry s = Some t0 \<and> elapsed w1 t0 > 1000 * 60 * 5)"
    using m by (auto simp: retry_lambda_def slotTryLock_def split: option.splits if_splits)
  from m m1 a b show ?thesis by blast
qed

theorem C10_marker_written_only_by_lock_success_witness:
  "run (PropagateUploadEncrypted_ctor False ''/home/u/sync'' ex_item)
       (ex_until_lock @ [(ex_world 30, LockError ''17'' 423)]) =
     Inr (ex_waiting,
          [StartGetFolderEncryptStatusJob ''docs'',
           StartLsColJob ''docs'' [''resourcetype'', ''http://owncloud.org/ns:fileid''],
           StartLockEncryptFolderApiJob ''17'',
           SingleShot 5000 ''17''])
   \<and> deliver (ex_world 5030) (TimerShot ''17'') ex_waiting = Inr (ex_waiting, [])
   \<and> \<not> currentLockingInProgress ex_waiting
   \<and> retry_lambda (ex_world 400000) ''17'' ex_waiting = Inr (ex_waiting, [])
   \<and> run (PropagateUploadEncrypted_ctor False ''/home/u/sync'' ex_item)
       (ex_until_lock @ [(ex_world 30, LockSuccess ''17'' ''tok'')]) =
     Inr (ex_held\<lparr>folderLockFirstTry := Some 20\<rparr>,
          [StartGetFolderEncryptStatusJob ''docs'',
           StartLsColJob ''docs'' [''resourcetype'', ''http://owncloud.org/ns:fileid''],
           StartLockEncryptFolderApiJob ''17'',
           StartGetMetadataApiJob ''17''])
   \<and> currentLockingInProgress (ex_held\<lparr>folderLockFirstTry := Some 20\<rparr>)
   \<and> retry_lambda (ex_world 400000) ''17'' (ex_held\<lparr>folderLockFirstTry := Some 20\<rparr>) =
       Inr (ex_held\<lparr>folderLockFirstTry := Some 20\<rparr>, [])
   \<and> elapsed (ex_world 400000) 20 > 1000 * 60 * 5"
proof -
  have r: "run (PropagateUploadEncrypted_ctor False ''/home/u/sync'' ex_item)
             (ex_until_lock @ [(ex_world 30, LockError ''17'' 423)]) =
           Inr (ex_waiting,
                [StartGetFolderEncryptStatusJob ''docs'',
                 StartLsColJob ''docs'' [''resourcetype'', ''http://owncloud.org/ns:fileid''],
                 StartLockEncryptFolderApiJob ''17'',
                 SingleShot 5000 ''17''])"
    by (simp add: eval_defs ex_waiting_def)
  have d: "deliver (ex_world 5030) (TimerShot ''17'') ex_waiting = Inr (ex_waiting, [])"
    by (simp add: eval_defs ex_waiting_def)
  have n: "\<nexists>w0 f t. (w0, LockSuccess f t) \<in>
             set (ex_until_lock @ [(ex_world 30, LockError ''17'' 423)])"
    by (simp add: ex_until_lock_def)
  from C10_marker_written_only_by_lock_success [OF r d, of "ex_world 400000" "''17''"] n
  have w1: "\<not> currentLockingInProgress ex_waiting
        \<and> retry_lambda (ex_world 400000) ''17'' ex_waiting = Inr (ex_waiting, [])"
    by blast
  have r2: "run (PropagateUploadEncrypted_ctor False ''/home/u/sync'' ex_item)
             (ex_until_lock @ [(ex_world 30, LockSuccess ''17'' ''tok'')]) =
           Inr (ex_held\<lparr>folderLockFirstTry := Some 20\<rparr>,
                [StartGetFolderEncryptStatusJob ''docs'',
                 StartLsColJob ''docs'' [''resourcetype'', ''http://owncloud.org/ns:fileid''],
                 StartLockEncryptFolderApiJob ''17'',
                 StartGetMetadataApiJob ''17''])"
    by (simp add: eval_defs)
  have d2: "deliver (ex_world 400000) (TimerShot ''17'') (ex_held\<lparr>folderLockFirstTry := Some 20\<rparr>) =
            Inr (ex_held\<lparr>folderLockFirstTry := Some 20\<rparr>, [])"
    by (simp add: eval_defs)
  have y: "\<exists>w0 f t. (w0, LockSuccess f t) \<in>
             set (ex_until_lock @ [(ex_world 30, LockSuccess ''17'' ''tok'')])"
    by auto
  from C10_marker_written_only_by_lock_success [OF r2 d2, of "ex_world 400000" "''17''"] y d2
  have w2: "currentLockingInProgress (ex_held\<lparr>folderLockFirstTry := Some 20\<rparr>)
        \<and> (\<exists>t0. folderLockFirstTry (ex_held\<lparr>folderLockFirstTry := Some 20\<rparr>) = Some t0
               \<and> elapsed (ex_world 400000) t0 > 1000 * 60 * 5)"
    by simp
  then have w3: "elapsed (ex_world 400000) 20 > 1000 * 60 * 5"
    by simp
  from r d w1 r2 d2 w2 w3 show ?thesis by simp
qed

text \<open>
  A marker that starts true: the first lock request fails with 423, no lock has
  succeeded, and the timer at 5030 ms makes the lock request again, which is then
  outstanding.
\<close>

theorem C10_counterexample:
  "run (PropagateUploadEncrypted_ctor True ''/home/u/sync'' ex_item) ex_lock_contended =
     Inr ((PropagateUploadEncrypted_ctor True ''/home/u/sync'' ex_item)
            \<lparr>folderLockFirstTry := Some 20\<rparr>,
          [StartGetFolderEncryptStatusJob ''docs'',
           StartLsColJob ''docs'' [''resourcetype'', ''http://owncloud.org/ns:fileid''],
           StartLockEncryptFolderApiJob ''17'',
           SingleShot 5000 ''17'',
           StartLockEncryptFolderApiJob ''17''])
   \<and> outstanding (PropagateUploadEncrypted_ctor True ''/home/u/sync'' ex_item)
        ex_lock_contended = Some [StartLockEncryptFolderApiJob ''17'']"
  by (simp add: eval_defs ex_lock_contended_def)

end
